theory Spec2Isabelle
  imports Complex_Main "HOL-Library.AList" "HOL-Library.Word"
begin

section \<open>Values, documents and exceptions\<close>

text \<open>
  The backend of \<^verbatim>\<open>main.py\<close> moves Python values between three places: the parsed JSON
  body of a request, the typed records of the pydantic schemas, and the documents of the
  MongoDB store. A Python \<^verbatim>\<open>str\<close> is a \<open>string\<close> whose characters stand for code points,
  a \<^verbatim>\<open>dict\<close> with string keys is an association list read with \<open>map_of\<close>, and a Python
  \<^verbatim>\<open>float\<close> is a real number or one of the three special values. Only the sign and the
  ordering of a float are ever inspected by the code, so rounding is left out.
\<close>

type_synonym byte = "8 word"

type_synonym oid = "byte list"

datatype pyfloat = Finite real | PosInf | NegInf | NaN

datatype pyval =
    PNone
  | PBool bool
  | PInt int
  | PFloat pyfloat
  | PStr string
  | PList "pyval list"
  | PDict "(string \<times> pyval) list"
  | PObjectId oid

type_synonym document = "(string \<times> pyval) list"

text \<open>Python's truth value of an object, as \<^verbatim>\<open>if x\<close> and \<^verbatim>\<open>not x\<close> test it.\<close>

fun truthy :: "pyval \<Rightarrow> bool" where
  "truthy PNone = False"
| "truthy (PBool b) = b"
| "truthy (PInt i) = (i \<noteq> 0)"
| "truthy (PFloat f) = (f \<noteq> Finite 0)"
| "truthy (PStr s) = (s \<noteq> [])"
| "truthy (PList xs) = (xs \<noteq> [])"
| "truthy (PDict d) = (d \<noteq> [])"
| "truthy (PObjectId b) = True"

text \<open>
  One entry of a pydantic validation error: the offending field and the kind of error.
\<close>

datatype err_kind =
    missing
  | model_type
  | string_type
  | int_type
  | int_parsing
  | int_from_float
  | float_type
  | float_parsing
  | finite_number
  | bool_type
  | bool_parsing
  | list_type
  | url_type
  | url_parsing
  | greater_than_equal
  | less_than_equal

type_synonym verr = "string \<times> err_kind"

text \<open>
  The exceptions the handlers raise, catch or let through. \<open>Exception m\<close> is any other
  exception whose \<^verbatim>\<open>str()\<close> is \<open>m\<close> (a driver error, a failure while the \<^verbatim>\<open>database\<close>
  module is loaded).
\<close>

datatype exn =
    ImportError string
  | HTTPException nat string
  | InvalidId string
  | TypeError string
  | ValidationError "verr list"
  | Exception string

text \<open>
  Library behaviour that \<^verbatim>\<open>main.py\<close> relies on and does not define is a parameter of the
  model: how pydantic reads a number, a boolean or a URL from a string, and how Python
  prints values other than strings and ObjectIds.
\<close>

record pylib =
  str_to_int :: "string \<Rightarrow> int option"
  str_to_float :: "string \<Rightarrow> pyfloat option"
  str_to_bool :: "string \<Rightarrow> bool option"
  http_url :: "string \<Rightarrow> string option"
  py_repr :: "pyval \<Rightarrow> string"
  error_text :: "verr list \<Rightarrow> string"

section \<open>ObjectId\<close>

text \<open>
  \<^verbatim>\<open>bson.ObjectId(s)\<close> on a \<^verbatim>\<open>str\<close> accepts exactly the strings of 24 characters that
  \<^verbatim>\<open>bytes.fromhex\<close> decodes, and raises \<^verbatim>\<open>InvalidId\<close> otherwise. \<^verbatim>\<open>bytes.fromhex\<close>
  reads two hexadecimal digits per byte and skips ASCII whitespace between bytes.
  \<^verbatim>\<open>str(oid)\<close> is the lower-case hexadecimal text of the bytes.
\<close>

definition isspace :: "char \<Rightarrow> bool" where
  "isspace c = (c \<in> set [CHR '' '', CHR 0x09, CHR 0x0A, CHR 0x0B, CHR 0x0C, CHR 0x0D])"

definition hex_digit :: "char \<Rightarrow> nat option" where
  "hex_digit c =
     (let n = (of_char c :: nat) in
      if 48 \<le> n \<and> n \<le> 57 then Some (n - 48)
      else if 97 \<le> n \<and> n \<le> 102 then Some (n - 87)
      else if 65 \<le> n \<and> n \<le> 70 then Some (n - 55)
      else None)"

fun fromhex :: "string \<Rightarrow> byte list option" where
  "fromhex [] = Some []"
| "fromhex (c # cs) =
     (if isspace c then fromhex cs
      else (case hex_digit c of
              None \<Rightarrow> None
            | Some hi \<Rightarrow>
                (case cs of
                   [] \<Rightarrow> None
                 | d # ds \<Rightarrow>
                     (case hex_digit d of
                        None \<Rightarrow> None
                      | Some lo \<Rightarrow>
                          (case fromhex ds of
                             None \<Rightarrow> None
                           | Some bs \<Rightarrow> Some (word_of_nat (hi * 16 + lo) # bs))))))"

definition ObjectId :: "string \<Rightarrow> exn + oid" where
  "ObjectId s =
     (if length s = 24 then
        (case fromhex s of
           None \<Rightarrow> Inl (InvalidId s)
         | Some bs \<Rightarrow> Inr bs)
      else Inl (InvalidId s))"

definition hex_char :: "nat \<Rightarrow> char" where
  "hex_char n = ''0123456789abcdef'' ! n"

fun hexlify :: "byte list \<Rightarrow> string" where
  "hexlify [] = []"
| "hexlify (b # bs) = hex_char (unat b div 16) # hex_char (unat b mod 16) # hexlify bs"

text \<open>
  \<^verbatim>\<open>ObjectId()\<close> makes a new 12-byte identifier. The driver's generator (time stamp,
  process-random part, counter) is modelled by a counter written out in 12 bytes,
  most significant byte first.
\<close>

definition new_ObjectId :: "nat \<Rightarrow> oid" where
  "new_ObjectId n = map (\<lambda>i. word_of_nat (n div 256 ^ (11 - i))) [0..<12]"

text \<open>Python's \<^verbatim>\<open>str(x)\<close>.\<close>

definition py_str :: "pylib \<Rightarrow> pyval \<Rightarrow> string" where
  "py_str L v = (case v of PStr s \<Rightarrow> s | PObjectId b \<Rightarrow> hexlify b | _ \<Rightarrow> py_repr L v)"

definition str_exn :: "pylib \<Rightarrow> exn \<Rightarrow> string" where
  "str_exn L e =
     (case e of
        ImportError m \<Rightarrow> m
      | HTTPException c d \<Rightarrow> py_repr L (PInt (int c)) @ '': '' @ d
      | InvalidId m \<Rightarrow> m
      | TypeError m \<Rightarrow> m
      | ValidationError errs \<Rightarrow> error_text L errs
      | Exception m \<Rightarrow> m)"

section \<open>The document store\<close>

text \<open>
  The \<^verbatim>\<open>database\<close> module is not part of \<^verbatim>\<open>main.py\<close>; the handlers import its handle
  \<^verbatim>\<open>db\<close> at each call. The handle is a pymongo database: named collections of
  documents. Every driver call is recorded in \<open>calls\<close>, and \<open>fault\<close> says which calls the
  driver answers with an exception (server unreachable, write refused) and with what
  message.
\<close>

datatype op = FindOne string | Find string | InsertOne string | ListCollectionNames

record mongo_db =
  db_name :: "string option"
  collections :: "(string \<times> document list) list"
  oid_counter :: nat
  fault :: "op \<Rightarrow> string option"
  calls :: "op list"

text \<open>
  What \<^verbatim>\<open>from database import ...\<close> does: the module is missing (\<^verbatim>\<open>ImportError\<close>),
  loading it raises something else, or it loads and \<^verbatim>\<open>db\<close> is \<^verbatim>\<open>None\<close> or a handle.
\<close>

datatype database_module = Missing string | Broken string | Loaded "mongo_db option"

record world =
  database :: database_module
  environ :: "(string \<times> string) list"

definition import_db :: "world \<Rightarrow> exn + mongo_db option" where
  "import_db W =
     (case database W of
        Missing m \<Rightarrow> Inl (ImportError m)
      | Broken m \<Rightarrow> Inl (Exception m)
      | Loaded h \<Rightarrow> Inr h)"

definition set_db :: "world \<Rightarrow> mongo_db \<Rightarrow> world" where
  "set_db W db = W\<lparr>database := Loaded (Some db)\<rparr>"

definition collection :: "mongo_db \<Rightarrow> string \<Rightarrow> document list" where
  "collection db c = (case map_of (collections db) c of None \<Rightarrow> [] | Some ds \<Rightarrow> ds)"

text \<open>A filter document of equalities: every key of the filter has that value.\<close>

definition matches :: "document \<Rightarrow> document \<Rightarrow> bool" where
  "matches flt d = list_all (\<lambda>(k, v). map_of d k = Some v) flt"

definition find_one ::
  "string \<Rightarrow> document \<Rightarrow> mongo_db \<Rightarrow> (exn + document option) \<times> mongo_db" where
  "find_one c flt db =
     (let db' = db\<lparr>calls := calls db @ [FindOne c]\<rparr> in
      case fault db (FindOne c) of
        Some m \<Rightarrow> (Inl (Exception m), db')
      | None \<Rightarrow> (Inr (List.find (matches flt) (collection db c)), db'))"

text \<open>
  \<^verbatim>\<open>insert_one\<close> gives the document an \<^verbatim>\<open>_id\<close> when it has none, appends it to the
  collection (creating the collection when needed) and returns the \<^verbatim>\<open>_id\<close>.
\<close>

definition insert_one ::
  "string \<Rightarrow> document \<Rightarrow> mongo_db \<Rightarrow> (exn + pyval) \<times> mongo_db" where
  "insert_one c d db =
     (let db' = db\<lparr>calls := calls db @ [InsertOne c]\<rparr> in
      case fault db (InsertOne c) of
        Some m \<Rightarrow> (Inl (Exception m), db')
      | None \<Rightarrow>
          (case map_of d ''_id'' of
             Some v \<Rightarrow>
               (Inr v, db'\<lparr>collections := AList.update c (collection db c @ [d]) (collections db)\<rparr>)
           | None \<Rightarrow>
               (let v = PObjectId (new_ObjectId (oid_counter db));
                    d' = d @ [(''_id'', v)]
                in (Inr v,
                    db'\<lparr>collections := AList.update c (collection db c @ [d']) (collections db),
                         oid_counter := Suc (oid_counter db)\<rparr>))))"

definition list_collection_names :: "mongo_db \<Rightarrow> (exn + string list) \<times> mongo_db" where
  "list_collection_names db =
     (let db' = db\<lparr>calls := calls db @ [ListCollectionNames]\<rparr> in
      case fault db ListCollectionNames of
        Some m \<Rightarrow> (Inl (Exception m), db')
      | None \<Rightarrow> (Inr (map fst (collections db)), db'))"

section \<open>Checkout\<close>

record CheckoutIn =
  product_id :: string
  quantity :: int

record CheckoutOut =
  status :: string
  message :: string
  order_id :: string

text \<open>
  The body of the outer \<^verbatim>\<open>try\<close> of \<^verbatim>\<open>checkout\<close>. The inner \<^verbatim>\<open>try\<close> turns every
  exception of \<^verbatim>\<open>ObjectId(payload.product_id)\<close> into the 400 error.
\<close>

definition checkout_try ::
  "pylib \<Rightarrow> CheckoutIn \<Rightarrow> world \<Rightarrow> (exn + CheckoutOut) \<times> world" where
  "checkout_try L payload W =
     (case import_db W of
        Inl e \<Rightarrow> (Inl e, W)
      | Inr None \<Rightarrow> (Inl (HTTPException 500 ''Database not available''), W)
      | Inr (Some db) \<Rightarrow>
          (case ObjectId (product_id payload) of
             Inl e \<Rightarrow> (Inl (HTTPException 400 ''Invalid product_id''), W)
           | Inr oid \<Rightarrow>
               (case find_one ''product'' [(''_id'', PObjectId oid)] db of
                  (Inl e, db1) \<Rightarrow> (Inl e, set_db W db1)
                | (Inr product, db1) \<Rightarrow>
                    (if \<not> (case product of None \<Rightarrow> False | Some p \<Rightarrow> truthy (PDict p))
                     then (Inl (HTTPException 404 ''Product not found''), set_db W db1)
                     else
                       (let order = [(''product_id'', PStr (product_id payload)),
                                     (''quantity'', PInt (quantity payload)),
                                     (''status'', PStr ''paid'')]
                        in case insert_one ''order'' order db1 of
                             (Inl e, db2) \<Rightarrow> (Inl e, set_db W db2)
                           | (Inr inserted_id, db2) \<Rightarrow>
                               (Inr \<lparr>status = ''success'',
                                     message = ''Payment processed (demo)'',
                                     order_id = py_str L inserted_id\<rparr>,
                                set_db W db2))))))"

text \<open>
  The handlers of the outer \<^verbatim>\<open>try\<close>: an \<^verbatim>\<open>HTTPException\<close> is raised again as it is,
  any other exception becomes a 500 error carrying its text.
\<close>

definition checkout :: "pylib \<Rightarrow> CheckoutIn \<Rightarrow> world \<Rightarrow> (exn + CheckoutOut) \<times> world" where
  "checkout L payload W =
     (case checkout_try L payload W of
        (Inl (HTTPException c d), W') \<Rightarrow> (Inl (HTTPException c d), W')
      | (Inl e, W') \<Rightarrow> (Inl (HTTPException 500 (str_exn L e)), W')
      | (Inr r, W') \<Rightarrow> (Inr r, W'))"

section \<open>Schema validation\<close>

text \<open>
  The schemas are pydantic models with the default configuration: a field is read from
  the key of its name, a missing key takes the field's default or is an error when the
  field is required, a key that names no field is ignored, and the errors of all fields
  are collected. Values are converted in pydantic's lax mode.
\<close>

definition validate_str :: "pyval \<Rightarrow> err_kind + string" where
  "validate_str v = (case v of PStr s \<Rightarrow> Inr s | _ \<Rightarrow> Inl string_type)"

definition validate_int :: "pylib \<Rightarrow> pyval \<Rightarrow> err_kind + int" where
  "validate_int L v =
     (case v of
        PInt i \<Rightarrow> Inr i
      | PBool b \<Rightarrow> Inr (if b then 1 else 0)
      | PFloat f \<Rightarrow>
          (case f of
             Finite r \<Rightarrow> if of_int \<lfloor>r\<rfloor> = r then Inr \<lfloor>r\<rfloor> else Inl int_from_float
           | _ \<Rightarrow> Inl finite_number)
      | PStr s \<Rightarrow> (case str_to_int L s of None \<Rightarrow> Inl int_parsing | Some i \<Rightarrow> Inr i)
      | _ \<Rightarrow> Inl int_type)"

definition validate_float :: "pylib \<Rightarrow> pyval \<Rightarrow> err_kind + pyfloat" where
  "validate_float L v =
     (case v of
        PFloat f \<Rightarrow> Inr f
      | PInt i \<Rightarrow> Inr (Finite (of_int i))
      | PBool b \<Rightarrow> Inr (Finite (if b then 1 else 0))
      | PStr s \<Rightarrow> (case str_to_float L s of None \<Rightarrow> Inl float_parsing | Some f \<Rightarrow> Inr f)
      | _ \<Rightarrow> Inl float_type)"

definition validate_bool :: "pylib \<Rightarrow> pyval \<Rightarrow> err_kind + bool" where
  "validate_bool L v =
     (case v of
        PBool b \<Rightarrow> Inr b
      | PInt i \<Rightarrow> if i = 0 then Inr False else if i = 1 then Inr True else Inl bool_parsing
      | PFloat f \<Rightarrow>
          if f = Finite 0 then Inr False else if f = Finite 1 then Inr True
          else Inl bool_parsing
      | PStr s \<Rightarrow> (case str_to_bool L s of None \<Rightarrow> Inl bool_parsing | Some b \<Rightarrow> Inr b)
      | _ \<Rightarrow> Inl bool_type)"

definition validate_url :: "pylib \<Rightarrow> pyval \<Rightarrow> err_kind + string" where
  "validate_url L v =
     (case v of
        PStr s \<Rightarrow> (case http_url L s of None \<Rightarrow> Inl url_parsing | Some u \<Rightarrow> Inr u)
      | _ \<Rightarrow> Inl url_type)"

text \<open>\<^verbatim>\<open>Optional[T]\<close>: \<^verbatim>\<open>None\<close> is accepted as it is.\<close>

definition validate_optional ::
  "(pyval \<Rightarrow> err_kind + 'a) \<Rightarrow> pyval \<Rightarrow> err_kind + 'a option" where
  "validate_optional f v =
     (case v of
        PNone \<Rightarrow> Inr None
      | _ \<Rightarrow> (case f v of Inl e \<Rightarrow> Inl e | Inr x \<Rightarrow> Inr (Some x)))"

text \<open>The comparisons of a float with a bound; every comparison with NaN is false.\<close>

fun float_ge :: "pyfloat \<Rightarrow> real \<Rightarrow> bool" where
  "float_ge (Finite r) b = (b \<le> r)"
| "float_ge PosInf b = True"
| "float_ge NegInf b = False"
| "float_ge NaN b = False"

fun float_lt :: "pyfloat \<Rightarrow> real \<Rightarrow> bool" where
  "float_lt (Finite r) b = (r < b)"
| "float_lt PosInf b = False"
| "float_lt NegInf b = True"
| "float_lt NaN b = False"

text \<open>The errors of one field, under the field's name.\<close>

definition field_errors :: "string \<Rightarrow> err_kind list + 'a \<Rightarrow> verr list" where
  "field_errors k r = (case r of Inl es \<Rightarrow> map (Pair k) es | Inr x \<Rightarrow> [])"

definition one_error :: "err_kind + 'a \<Rightarrow> err_kind list + 'a" where
  "one_error r = (case r of Inl e \<Rightarrow> Inl [e] | Inr x \<Rightarrow> Inr x)"

text \<open>A required field (\<^verbatim>\<open>Field(...)\<close> or no default) and a field with a default.\<close>

definition required ::
  "document \<Rightarrow> string \<Rightarrow> (pyval \<Rightarrow> err_kind list + 'a) \<Rightarrow> err_kind list + 'a" where
  "required d k f = (case map_of d k of None \<Rightarrow> Inl [missing] | Some v \<Rightarrow> f v)"

definition with_default ::
  "document \<Rightarrow> string \<Rightarrow> 'a \<Rightarrow> (pyval \<Rightarrow> err_kind list + 'a) \<Rightarrow> err_kind list + 'a" where
  "with_default d k dflt f = (case map_of d k of None \<Rightarrow> Inr dflt | Some v \<Rightarrow> f v)"

subsection \<open>CheckoutIn\<close>

text \<open>
  \<^verbatim>\<open>product_id: str\<close> and \<^verbatim>\<open>quantity: int = Field(1, ge=1, le=10)\<close>.
\<close>

definition validate_quantity :: "pylib \<Rightarrow> pyval \<Rightarrow> err_kind list + int" where
  "validate_quantity L v =
     (case validate_int L v of
        Inl e \<Rightarrow> Inl [e]
      | Inr q \<Rightarrow>
          if \<not> 1 \<le> q then Inl [greater_than_equal]
          else if \<not> q \<le> 10 then Inl [less_than_equal]
          else Inr q)"

definition validate_CheckoutIn :: "pylib \<Rightarrow> document \<Rightarrow> verr list + CheckoutIn" where
  "validate_CheckoutIn L d =
     (let p = required d ''product_id'' (\<lambda>v. one_error (validate_str v));
          q = with_default d ''quantity'' 1 (validate_quantity L)
      in case (p, q) of
           (Inr pid, Inr n) \<Rightarrow> Inr \<lparr>product_id = pid, quantity = n\<rparr>
         | _ \<Rightarrow> Inl (field_errors ''product_id'' p @ field_errors ''quantity'' q))"

subsection \<open>ProductIn and ProductOut\<close>

record ProductIn =
  title :: string
  description :: "string option"
  price :: pyfloat
  category :: "string option"
  in_stock :: bool
  image_urls :: "string list"
  video_url :: "string option"

record ProductOut = ProductIn +
  id_str :: string

definition validate_price :: "pylib \<Rightarrow> pyval \<Rightarrow> err_kind list + pyfloat" where
  "validate_price L v =
     (case validate_float L v of
        Inl e \<Rightarrow> Inl [e]
      | Inr f \<Rightarrow> if float_ge f 0 then Inr f else Inl [greater_than_equal])"

text \<open>\<^verbatim>\<open>List[HttpUrl]\<close>: a list whose items are all URLs; each bad item is an error.\<close>

definition validate_image_urls :: "pylib \<Rightarrow> pyval \<Rightarrow> err_kind list + string list" where
  "validate_image_urls L v =
     (case v of
        PList xs \<Rightarrow>
          (let rs = map (validate_url L) xs;
               es = concat (map (\<lambda>r. case r of Inl e \<Rightarrow> [e] | Inr u \<Rightarrow> []) rs)
           in if es = [] then Inr (concat (map (\<lambda>r. case r of Inl e \<Rightarrow> [] | Inr u \<Rightarrow> [u]) rs))
              else Inl es)
      | _ \<Rightarrow> Inl [list_type])"

text \<open>The seven fields of \<^verbatim>\<open>ProductIn\<close>, in the order of the class.\<close>

definition ProductIn_fields :: "string list" where
  "ProductIn_fields =
     [''title'', ''description'', ''price'', ''category'', ''in_stock'', ''image_urls'',
      ''video_url'']"

definition validate_ProductIn :: "pylib \<Rightarrow> document \<Rightarrow> verr list + ProductIn" where
  "validate_ProductIn L d =
     (let t = required d ''title'' (\<lambda>v. one_error (validate_str v));
          ds = with_default d ''description'' None
                 (\<lambda>v. one_error (validate_optional validate_str v));
          p = required d ''price'' (validate_price L);
          c = with_default d ''category'' None
                 (\<lambda>v. one_error (validate_optional validate_str v));
          s = with_default d ''in_stock'' True (\<lambda>v. one_error (validate_bool L v));
          i = with_default d ''image_urls'' [] (validate_image_urls L);
          u = with_default d ''video_url'' None
                 (\<lambda>v. one_error (validate_optional (validate_url L) v))
      in case (t, ds, p, c, s, i, u) of
           (Inr t', Inr ds', Inr p', Inr c', Inr s', Inr i', Inr u') \<Rightarrow>
             Inr \<lparr>title = t', description = ds', price = p', category = c', in_stock = s',
                  image_urls = i', video_url = u'\<rparr>
         | _ \<Rightarrow>
             Inl (field_errors ''title'' t @ field_errors ''description'' ds
                  @ field_errors ''price'' p @ field_errors ''category'' c
                  @ field_errors ''in_stock'' s @ field_errors ''image_urls'' i
                  @ field_errors ''video_url'' u))"

text \<open>\<^verbatim>\<open>ProductOut\<close> inherits the seven fields and adds the required \<^verbatim>\<open>id: str\<close>.\<close>

definition validate_ProductOut :: "pylib \<Rightarrow> document \<Rightarrow> verr list + ProductOut" where
  "validate_ProductOut L d =
     (let b = validate_ProductIn L d;
          i = required d ''id'' (\<lambda>v. one_error (validate_str v))
      in case (b, i) of
           (Inr p, Inr s) \<Rightarrow> Inr (ProductIn.extend p (ProductOut.fields s))
         | (Inl es, _) \<Rightarrow> Inl (es @ field_errors ''id'' i)
         | (Inr p, Inl es) \<Rightarrow> Inl (field_errors ''id'' i))"

section \<open>Requests\<close>

text \<open>
  What the framework does around a handler that takes a schema as its body: the parsed
  JSON body is validated first; a body that fails is answered with status 422 and the
  handler is not called. An \<^verbatim>\<open>HTTPException\<close> of the handler is answered with its status
  and detail, any other exception with status 500.
\<close>

datatype 'a reply =
    OK 'a
  | Unprocessable "verr list"
  | HTTPError nat string
  | ServerError exn

definition reply_of :: "exn + 'a \<Rightarrow> 'a reply" where
  "reply_of r =
     (case r of
        Inr x \<Rightarrow> OK x
      | Inl (HTTPException c d) \<Rightarrow> HTTPError c d
      | Inl e \<Rightarrow> ServerError e)"

definition with_body ::
  "(document \<Rightarrow> verr list + 'p) \<Rightarrow> ('p \<Rightarrow> world \<Rightarrow> (exn + 'a) \<times> world) \<Rightarrow>
     pyval \<Rightarrow> world \<Rightarrow> 'a reply \<times> world" where
  "with_body validate handler body W =
     (case body of
        PDict d \<Rightarrow>
          (case validate d of
             Inl errs \<Rightarrow> (Unprocessable errs, W)
           | Inr payload \<Rightarrow> (case handler payload W of (r, W') \<Rightarrow> (reply_of r, W')))
      | _ \<Rightarrow> (Unprocessable [(''body'', model_type)], W))"

definition post_api_checkout :: "pylib \<Rightarrow> pyval \<Rightarrow> world \<Rightarrow> CheckoutOut reply \<times> world" where
  "post_api_checkout L = with_body (validate_CheckoutIn L) (checkout L)"

section \<open>Products\<close>

text \<open>
  \<^verbatim>\<open>create_product\<close> hands the validated payload to \<^verbatim>\<open>database.create_document\<close>, which
  is not part of \<^verbatim>\<open>main.py\<close> and is a parameter here, and returns the new identifier
  under the key \<^verbatim>\<open>id\<close>.
\<close>

definition create_product ::
  "(string \<Rightarrow> ProductIn \<Rightarrow> world \<Rightarrow> (exn + pyval) \<times> world) \<Rightarrow>
     ProductIn \<Rightarrow> world \<Rightarrow> (exn + document) \<times> world" where
  "create_product create_document payload W =
     (case import_db W of
        Inl e \<Rightarrow> (Inl e, W)
      | Inr h \<Rightarrow>
          (case create_document ''product'' payload W of
             (Inl e, W') \<Rightarrow> (Inl e, W')
           | (Inr new_id, W') \<Rightarrow> (Inr [(''id'', new_id)], W')))"

definition post_api_products ::
  "pylib \<Rightarrow> (string \<Rightarrow> ProductIn \<Rightarrow> world \<Rightarrow> (exn + pyval) \<times> world) \<Rightarrow>
     pyval \<Rightarrow> world \<Rightarrow> document reply \<times> world" where
  "post_api_products L create_document =
     with_body (validate_ProductIn L) (create_product create_document)"

text \<open>
  Modelled from the spec: \<^verbatim>\<open>database.get_documents\<close> is imported by \<^verbatim>\<open>list_products\<close>
  and is not part of \<^verbatim>\<open>main.py\<close>. The spec has it fetch up to \<open>limit\<close> documents of the
  named collection that match the filter, in the store's order, and has a store that
  cannot be reached signalled as an error.
\<close>

definition get_documents ::
  "string \<Rightarrow> document \<Rightarrow> nat \<Rightarrow> mongo_db option \<Rightarrow> world \<Rightarrow> (exn + document list) \<times> world" where
  "get_documents c flt limit h W =
     (case h of
        None \<Rightarrow> (Inl (Exception ''Database not available''), W)
      | Some db \<Rightarrow>
          (let db' = db\<lparr>calls := calls db @ [Find c]\<rparr> in
           case fault db (Find c) of
             Some m \<Rightarrow> (Inl (Exception m), set_db W db')
           | None \<Rightarrow> (Inr (take limit (filter (matches flt) (collection db c))), set_db W db')))"

text \<open>
  \<^verbatim>\<open>ProductOut(id=_id, **d)\<close>: a key \<^verbatim>\<open>id\<close> in \<open>d\<close> is a second value for the same keyword
  (\<^verbatim>\<open>TypeError\<close>); otherwise the keywords are validated against the schema.
\<close>

definition new_ProductOut :: "pylib \<Rightarrow> string \<Rightarrow> document \<Rightarrow> exn + ProductOut" where
  "new_ProductOut L i d =
     (if map_of d ''id'' \<noteq> None then Inl (TypeError ''got multiple values for keyword argument id'')
      else (case validate_ProductOut L ((''id'', PStr i) # d) of
              Inl errs \<Rightarrow> Inl (ValidationError errs)
            | Inr p \<Rightarrow> Inr p))"

text \<open>\<^verbatim>\<open>d.get(k)\<close> and \<^verbatim>\<open>d.pop(k, None)\<close>.\<close>

definition dict_get :: "document \<Rightarrow> string \<Rightarrow> pyval" where
  "dict_get d k = (case map_of d k of None \<Rightarrow> PNone | Some v \<Rightarrow> v)"

definition dict_pop :: "string \<Rightarrow> document \<Rightarrow> document" where
  "dict_pop k d = AList.delete k d"

text \<open>One round of the loop of \<^verbatim>\<open>list_products\<close>: the record made from document \<open>d\<close>.\<close>

definition product_of_doc :: "pylib \<Rightarrow> document \<Rightarrow> exn + ProductOut" where
  "product_of_doc L d =
     (let i = (if truthy (dict_get d ''_id'') then py_str L (dict_get d ''_id'') else []);
          d1 = dict_pop ''_id'' d;
          d2 = dict_pop ''created_at'' d1;
          d3 = dict_pop ''updated_at'' d2
      in new_ProductOut L i d3)"

fun list_products_loop ::
  "pylib \<Rightarrow> document list \<Rightarrow> ProductOut list \<Rightarrow> exn + ProductOut list" where
  "list_products_loop L [] out = Inr out"
| "list_products_loop L (d # docs) out =
     (case product_of_doc L d of
        Inl e \<Rightarrow> Inl e
      | Inr p \<Rightarrow> list_products_loop L docs (out @ [p]))"

definition list_products :: "pylib \<Rightarrow> world \<Rightarrow> (exn + ProductOut list) \<times> world" where
  "list_products L W =
     (case import_db W of
        Inl e \<Rightarrow> (Inl e, W)
      | Inr h \<Rightarrow>
          (case get_documents ''product'' [] 100 h W of
             (Inl e, W') \<Rightarrow> (Inl e, W')
           | (Inr docs, W') \<Rightarrow> (list_products_loop L docs [], W')))"

section \<open>Diagnostics\<close>

text \<open>The three symbols of the status texts, as their UTF-8 bytes.\<close>

definition check_mark :: string where
  "check_mark = [CHR 0xE2, CHR 0x9C, CHR 0x85]"

definition cross_mark :: string where
  "cross_mark = [CHR 0xE2, CHR 0x9D, CHR 0x8C]"

definition warning_sign :: string where
  "warning_sign = [CHR 0xE2, CHR 0x9A, CHR 0xA0, CHR 0xEF, CHR 0xB8, CHR 0x8F]"

text \<open>\<^verbatim>\<open>response[k] = v\<close> on the response dictionary.\<close>

definition setitem :: "string \<Rightarrow> pyval \<Rightarrow> document \<Rightarrow> document" where
  "setitem k v d = AList.update k v d"

text \<open>\<^verbatim>\<open>os.getenv(k)\<close> as a condition: the variable is set and not empty.\<close>

definition getenv_truthy :: "world \<Rightarrow> string \<Rightarrow> bool" where
  "getenv_truthy W k = (case map_of (environ W) k of None \<Rightarrow> False | Some v \<Rightarrow> v \<noteq> [])"

text \<open>
  The body of the outer \<^verbatim>\<open>try\<close> of \<^verbatim>\<open>test_database\<close>: the exception that leaves it, if
  any, and the response as the body left it. The inner \<^verbatim>\<open>try\<close> catches every exception
  of \<^verbatim>\<open>list_collection_names\<close>.
\<close>

definition test_database_try ::
  "pylib \<Rightarrow> world \<Rightarrow> document \<Rightarrow> (exn option \<times> document) \<times> world" where
  "test_database_try L W response =
     (case import_db W of
        Inl e \<Rightarrow> ((Some e, response), W)
      | Inr None \<Rightarrow>
          ((None, setitem ''database''
                    (PStr (warning_sign @ ''  Available but not initialized'')) response), W)
      | Inr (Some db) \<Rightarrow>
          (let r1 = setitem ''database'' (PStr (check_mark @ '' Available'')) response;
               r2 = setitem ''database_url'' (PStr (check_mark @ '' Configured'')) r1;
               r3 = setitem ''database_name''
                      (PStr (case db_name db of
                               Some n \<Rightarrow> n
                             | None \<Rightarrow> check_mark @ '' Connected'')) r2;
               r4 = setitem ''connection_status'' (PStr ''Connected'') r3
           in case list_collection_names db of
                (Inr cs, db') \<Rightarrow>
                  (let r5 = setitem ''collections'' (PList (map PStr (take 10 cs))) r4;
                       r6 = setitem ''database''
                              (PStr (check_mark @ '' Connected & Working'')) r5
                   in ((None, r6), set_db W db'))
              | (Inl e, db') \<Rightarrow>
                  ((None, setitem ''database''
                            (PStr (warning_sign @ ''  Connected but Error: ''
                                   @ take 50 (str_exn L e))) r4),
                   set_db W db')))"

definition is_ImportError :: "exn \<Rightarrow> bool" where
  "is_ImportError e = (case e of ImportError m \<Rightarrow> True | _ \<Rightarrow> False)"

text \<open>
  The whole handler: the initial response, the \<^verbatim>\<open>try\<close> with its two handlers
  (\<^verbatim>\<open>except ImportError\<close> first, then \<^verbatim>\<open>except Exception\<close>), and the two environment
  checks.
\<close>

definition test_database :: "pylib \<Rightarrow> world \<Rightarrow> (exn + document) \<times> world" where
  "test_database L W =
     (let response =
            [(''backend'', PStr (check_mark @ '' Running'')),
             (''database'', PStr (cross_mark @ '' Not Available'')),
             (''database_url'', PNone),
             (''database_name'', PNone),
             (''connection_status'', PStr ''Not Connected''),
             (''collections'', PList [])]
      in case test_database_try L W response of
           ((raised, r), W') \<Rightarrow>
             (let ra =
                    (case raised of
                       None \<Rightarrow> r
                     | Some e \<Rightarrow>
                         if is_ImportError e then
                           setitem ''database''
                             (PStr (cross_mark
                                    @ '' Database module not found (run enable-database first)'')) r
                         else
                           setitem ''database''
                             (PStr (cross_mark @ '' Error: '' @ take 50 (str_exn L e))) r);
                  rb = setitem ''database_url''
                          (PStr (if getenv_truthy W ''DATABASE_URL'' then check_mark @ '' Set''
                                 else cross_mark @ '' Not Set'')) ra;
                  rc = setitem ''database_name''
                          (PStr (if getenv_truthy W ''DATABASE_NAME'' then check_mark @ '' Set''
                                 else cross_mark @ '' Not Set'')) rb
              in (Inr rc, W')))"

section \<open>Example inputs\<close>

text \<open>
  A library that reads nothing from a string and takes every URL as it is, a store
  holding one product, and the world in which that store is connected.
\<close>

definition example_lib :: pylib where
  "example_lib =
     \<lparr>str_to_int = (\<lambda>s. None), str_to_float = (\<lambda>s. None), str_to_bool = (\<lambda>s. None),
      http_url = (\<lambda>s. Some s), py_repr = (\<lambda>v. []), error_text = (\<lambda>es. [])\<rparr>"

definition example_oid :: oid where
  "example_oid = [0x65, 0x01, 0x02, 0x03, 0x04, 0x05, 0x06, 0x07, 0x08, 0x09, 0x0A, 0x0B]"

definition example_product :: document where
  "example_product =
     [(''_id'', PObjectId example_oid), (''title'', PStr ''Lamp''), (''price'', PInt 25),
      (''in_stock'', PBool True), (''created_at'', PStr ''2024-05-01''),
      (''updated_at'', PStr ''2024-05-01'')]"

definition example_db :: mongo_db where
  "example_db =
     \<lparr>db_name = Some ''shop'', collections = [(''product'', [example_product])],
      oid_counter = 7, fault = (\<lambda>c. None), calls = []\<rparr>"

definition example_world :: world where
  "example_world = \<lparr>database = Loaded (Some example_db), environ = [(''DATABASE_URL'', ''mongodb://localhost'')]\<rparr>"

definition uninitialized_world :: world where
  "uninitialized_world = \<lparr>database = Loaded None, environ = []\<rparr>"

definition absent_world :: world where
  "absent_world = \<lparr>database = Missing ''No module named database'', environ = []\<rparr>"

text \<open>A connected store whose only product document has no title.\<close>

definition untitled_world :: world where
  "untitled_world =
     \<lparr>database =
        Loaded (Some (example_db\<lparr>collections :=
                        [(''product'', [[(''_id'', PObjectId example_oid), (''price'', PInt 25)]])]\<rparr>)),
      environ = []\<rparr>"

section \<open>Facts about identifiers\<close>

lemma ObjectId_not_an_id: "ObjectId ''not-an-id'' = Inl (InvalidId ''not-an-id'')"
  by (simp add: ObjectId_def)

lemma ObjectId_empty: "ObjectId [] = Inl (InvalidId [])"
  by (simp add: ObjectId_def)

lemma fromhex_example: "fromhex ''650102030405060708090a0b'' = Some example_oid"
  by (simp add: example_oid_def isspace_def hex_digit_def)

lemma ObjectId_example: "ObjectId ''650102030405060708090a0b'' = Inr example_oid"
  unfolding ObjectId_def fromhex_example by simp

section \<open>Checkout: what the handler answers\<close>

text \<open>
  Claim C2, as amended. The spec has every checkout whose \<^verbatim>\<open>product_id\<close> is not a valid
  store identifier fail with status 400. The handler tests \<^verbatim>\<open>db is None\<close> before it
  looks at the identifier, so the 400 answer needs the database handle: when the
  \<^verbatim>\<open>database\<close> module is loaded and \<^verbatim>\<open>db\<close> is not \<^verbatim>\<open>None\<close>, a payload whose
  \<^verbatim>\<open>product_id\<close> \<^verbatim>\<open>ObjectId\<close> refuses is answered with 400 \<^verbatim>\<open>Invalid product_id\<close>, and
  the world is left as it was: no driver call is made and no order is created.
\<close>

theorem checkout_invalid_id:
  assumes "database W = Loaded (Some db)" and "ObjectId (product_id payload) = Inl e"
  shows "checkout L payload W = (Inl (HTTPException 400 ''Invalid product_id''), W)"
  using assms by (simp add: checkout_def checkout_try_def import_db_def)

theorem checkout_invalid_id_witness:
  "database example_world = Loaded (Some example_db) \<and>
   ObjectId (product_id \<lparr>product_id = ''not-an-id'', quantity = 3\<rparr>)
     = Inl (InvalidId ''not-an-id'') \<and>
   checkout example_lib \<lparr>product_id = ''not-an-id'', quantity = 3\<rparr> example_world
     = (Inl (HTTPException 400 ''Invalid product_id''), example_world)"
proof -
  have a: "database example_world = Loaded (Some example_db)"
    by (simp add: example_world_def)
  have b: "ObjectId (product_id \<lparr>product_id = ''not-an-id'', quantity = 3\<rparr>)
             = Inl (InvalidId ''not-an-id'')"
    by (simp add: ObjectId_not_an_id)
  show ?thesis using a b checkout_invalid_id [OF a b, of example_lib] by simp
qed

text \<open>
  Claim C2 as the spec states it fails where the handle is \<^verbatim>\<open>None\<close>: the identifier
  \<^verbatim>\<open>not-an-id\<close> is refused by \<^verbatim>\<open>ObjectId\<close>, and the answer is 500, not 400.
\<close>

theorem checkout_invalid_id_uninitialized:
  "ObjectId ''not-an-id'' = Inl (InvalidId ''not-an-id'') \<and>
   checkout example_lib \<lparr>product_id = ''not-an-id'', quantity = 1\<rparr> uninitialized_world
     = (Inl (HTTPException 500 ''Database not available''), uninitialized_world)"
  by (simp add: ObjectId_not_an_id checkout_def checkout_try_def import_db_def
      uninitialized_world_def)

section \<open>Facts about the store\<close>

lemma matches_id: "matches [(k, v)] d = (map_of d k = Some v)"
  by (simp add: matches_def)

lemma find_id_Some:
  assumes "\<exists>p\<in>set ds. map_of p k = Some v"
  shows "\<exists>p. List.find (matches [(k, v)]) ds = Some p \<and> p \<noteq> []"
  using assms by (induction ds) (auto simp: matches_id)

lemma find_id_None:
  assumes "\<forall>p\<in>set ds. map_of p k \<noteq> Some v"
  shows "List.find (matches [(k, v)]) ds = None"
  using assms by (induction ds) (auto simp: matches_id)

lemma collection_calls: "collection (db\<lparr>calls := cs\<rparr>) c = collection db c"
  by (simp add: collection_def)

lemma length_hexlify: "length (hexlify bs) = 2 * length bs"
  by (induction bs) auto

lemma length_new_ObjectId: "length (new_ObjectId n) = 12"
  by (simp add: new_ObjectId_def)

lemma hexlify_new_ObjectId: "hexlify (new_ObjectId n) \<noteq> []"
proof -
  have "length (hexlify (new_ObjectId n)) = 24"
    by (simp add: length_hexlify length_new_ObjectId)
  then show ?thesis by auto
qed

lemma example_products: "collection example_db ''product'' = [example_product]"
  by (simp add: collection_def example_db_def)

lemma example_orders: "collection example_db ''order'' = []"
  by (simp add: collection_def example_db_def)

lemma fromhex_unused: "fromhex ''650102030405060708090a0c''
    = Some [0x65, 0x01, 0x02, 0x03, 0x04, 0x05, 0x06, 0x07, 0x08, 0x09, 0x0A, 0x0C]"
  by (simp add: isspace_def hex_digit_def)

lemma ObjectId_unused: "ObjectId ''650102030405060708090a0c''
    = Inr [0x65, 0x01, 0x02, 0x03, 0x04, 0x05, 0x06, 0x07, 0x08, 0x09, 0x0A, 0x0C]"
  unfolding ObjectId_def fromhex_unused by simp

section \<open>Checkout: the two answers that read the store\<close>

lemma checkout_success:
  assumes "database W = Loaded (Some db)"
    and "ObjectId (product_id payload) = Inr oid"
    and "\<exists>p\<in>set (collection db ''product''). map_of p ''_id'' = Some (PObjectId oid)"
    and "fault db (FindOne ''product'') = None"
    and "fault db (InsertOne ''order'') = None"
  shows "checkout L payload W
           = (Inr \<lparr>status = ''success'', message = ''Payment processed (demo)'',
                   order_id = hexlify (new_ObjectId (oid_counter db))\<rparr>,
              set_db W (db\<lparr>calls := calls db @ [FindOne ''product'', InsertOne ''order''],
                            collections :=
                              AList.update ''order''
                                (collection db ''order''
                                 @ [[(''product_id'', PStr (product_id payload)),
                                     (''quantity'', PInt (quantity payload)),
                                     (''status'', PStr ''paid''),
                                     (''_id'', PObjectId (new_ObjectId (oid_counter db)))]])
                                (collections db),
                            oid_counter := Suc (oid_counter db)\<rparr>))"
proof -
  obtain p where p: "List.find (matches [(''_id'', PObjectId oid)]) (collection db ''product'') = Some p"
    and ne: "p \<noteq> []"
    using find_id_Some [OF assms(3)] by blast
  show ?thesis
    using assms(1,2,4,5) p ne
    by (simp add: checkout_def checkout_try_def import_db_def find_one_def insert_one_def
        py_str_def Let_def collection_calls)
qed

text \<open>
  Claim C7. With the store connected and answering, a payload whose \<^verbatim>\<open>product_id\<close> is a
  valid identifier that no document of the \<^verbatim>\<open>product\<close> collection carries as its \<^verbatim>\<open>_id\<close>
  is answered with 404 \<^verbatim>\<open>Product not found\<close>. The only driver call is the \<^verbatim>\<open>find_one\<close>;
  the collections are what they were, so no order is created.
\<close>

theorem checkout_product_not_found:
  assumes "database W = Loaded (Some db)"
    and "ObjectId (product_id payload) = Inr oid"
    and "\<forall>p\<in>set (collection db ''product''). map_of p ''_id'' \<noteq> Some (PObjectId oid)"
    and "fault db (FindOne ''product'') = None"
  shows "\<exists>W' db'. checkout L payload W = (Inl (HTTPException 404 ''Product not found''), W')
           \<and> database W' = Loaded (Some db')
           \<and> collections db' = collections db
           \<and> calls db' = calls db @ [FindOne ''product'']"
  using assms(1,2,4) find_id_None [OF assms(3)]
  by (simp add: checkout_def checkout_try_def import_db_def find_one_def set_db_def)

theorem checkout_product_not_found_witness:
  "checkout example_lib \<lparr>product_id = ''650102030405060708090a0c'', quantity = 2\<rparr> example_world
     = (Inl (HTTPException 404 ''Product not found''),
        example_world\<lparr>database := Loaded (Some (example_db\<lparr>calls := [FindOne ''product'']\<rparr>))\<rparr>)"
proof -
  let ?oid = "[0x65, 0x01, 0x02, 0x03, 0x04, 0x05, 0x06, 0x07, 0x08, 0x09, 0x0A, 0x0C] :: oid"
  let ?payload = "\<lparr>product_id = ''650102030405060708090a0c'', quantity = 2\<rparr>"
  have a: "database example_world = Loaded (Some example_db)"
    by (simp add: example_world_def)
  have b: "ObjectId (product_id ?payload) = Inr ?oid"
    by (simp add: ObjectId_unused)
  have c: "\<forall>p\<in>set (collection example_db ''product''). map_of p ''_id'' \<noteq> Some (PObjectId ?oid)"
    by (simp add: example_products example_product_def example_oid_def)
  have d: "fault example_db (FindOne ''product'') = None"
    by (simp add: example_db_def)
  from checkout_product_not_found [OF a b c d, of example_lib]
  obtain W' db' where r: "checkout example_lib ?payload example_world
        = (Inl (HTTPException 404 ''Product not found''), W')"
    by blast
  have "snd (checkout example_lib ?payload example_world)
          = example_world\<lparr>database := Loaded (Some (example_db\<lparr>calls := [FindOne ''product'']\<rparr>))\<rparr>"
    using a b d find_id_None [OF c]
    by (simp add: checkout_def checkout_try_def import_db_def find_one_def set_db_def
        example_db_def)
  with r show ?thesis by simp
qed

section \<open>Checkout: validation of the request\<close>

lemma validate_quantity_int:
  "validate_quantity L (PInt q)
     = (if q < 1 then Inl [greater_than_equal] else if 10 < q then Inl [less_than_equal] else Inr q)"
  by (simp add: validate_quantity_def validate_int_def)

lemma validate_CheckoutIn_ok:
  assumes "map_of d ''product_id'' = Some (PStr pid)"
    and "with_default d ''quantity'' 1 (validate_quantity L) = Inr q"
  shows "validate_CheckoutIn L d = Inr \<lparr>product_id = pid, quantity = q\<rparr>"
  using assms by (simp add: validate_CheckoutIn_def required_def validate_str_def one_error_def)

text \<open>
  Claim C4. A body whose \<^verbatim>\<open>quantity\<close> is an integer below 1 or above 10 fails validation
  with an error on \<^verbatim>\<open>quantity\<close> (\<^verbatim>\<open>greater_than_equal\<close> below 1, \<^verbatim>\<open>less_than_equal\<close> above
  10); the value is not clamped. The request is answered with status 422 and the world
  is unchanged: the handler is not called and the store is not touched.
\<close>

theorem checkout_quantity_out_of_range:
  assumes "map_of d ''quantity'' = Some (PInt q)" and "q < 1 \<or> 10 < q"
  shows "\<exists>errs. validate_CheckoutIn L d = Inl errs
           \<and> (''quantity'', if q < 1 then greater_than_equal else less_than_equal) \<in> set errs
           \<and> post_api_checkout L (PDict d) W = (Unprocessable errs, W)"
proof -
  have q: "with_default d ''quantity'' 1 (validate_quantity L)
             = Inl [if q < 1 then greater_than_equal else less_than_equal]"
    using assms by (auto simp: with_default_def validate_quantity_int)
  show ?thesis
    by (cases "required d ''product_id'' (\<lambda>v. one_error (validate_str v))")
       (simp_all add: validate_CheckoutIn_def q field_errors_def post_api_checkout_def
          with_body_def)
qed

theorem checkout_quantity_out_of_range_witness:
  "map_of [(''product_id'', PStr ''650102030405060708090a0b''), (''quantity'', PInt 11)] ''quantity''
     = Some (PInt 11) \<and> ((11::int) < 1 \<or> (10::int) < 11) \<and>
   validate_CheckoutIn example_lib
       [(''product_id'', PStr ''650102030405060708090a0b''), (''quantity'', PInt 11)]
     = Inl [(''quantity'', less_than_equal)] \<and>
   post_api_checkout example_lib
       (PDict [(''product_id'', PStr ''650102030405060708090a0b''), (''quantity'', PInt 11)])
       example_world
     = (Unprocessable [(''quantity'', less_than_equal)], example_world)"
proof -
  let ?d = "[(''product_id'', PStr ''650102030405060708090a0b''), (''quantity'', PInt 11)]"
  have a: "map_of ?d ''quantity'' = Some (PInt 11)" by simp
  have b: "(11::int) < 1 \<or> (10::int) < 11" by simp
  have v: "validate_CheckoutIn example_lib ?d = Inl [(''quantity'', less_than_equal)]"
    by (simp add: validate_CheckoutIn_def required_def with_default_def validate_str_def
        one_error_def validate_quantity_int field_errors_def)
  from checkout_quantity_out_of_range [OF a b, of example_lib example_world]
  show ?thesis using a v by auto
qed

text \<open>
  Claim C1. The store is connected and answers; the body carries a string \<^verbatim>\<open>product_id\<close>
  that is the \<^verbatim>\<open>_id\<close> of a document of the \<^verbatim>\<open>product\<close> collection and an integer
  \<^verbatim>\<open>quantity\<close> from 1 to 10. Then the request is answered with status \<^verbatim>\<open>success\<close> and
  an \<^verbatim>\<open>order_id\<close> that is not empty (the text of the new document's \<^verbatim>\<open>_id\<close>), the
  \<^verbatim>\<open>order\<close> collection has grown by exactly one document, whose fields besides \<^verbatim>\<open>_id\<close>
  are the request's \<^verbatim>\<open>product_id\<close>, its \<^verbatim>\<open>quantity\<close> and the status \<^verbatim>\<open>paid\<close>, and every
  other collection is as it was.
\<close>

theorem checkout_creates_order:
  assumes "database W = Loaded (Some db)"
    and "map_of d ''product_id'' = Some (PStr pid)"
    and "map_of d ''quantity'' = Some (PInt q)" and "1 \<le> q" and "q \<le> 10"
    and "ObjectId pid = Inr oid"
    and "\<exists>p\<in>set (collection db ''product''). map_of p ''_id'' = Some (PObjectId oid)"
    and "fault db (FindOne ''product'') = None"
    and "fault db (InsertOne ''order'') = None"
  shows "\<exists>r W' db'.
           post_api_checkout L (PDict d) W = (OK r, W')
         \<and> status r = ''success''
         \<and> order_id r = hexlify (new_ObjectId (oid_counter db)) \<and> order_id r \<noteq> []
         \<and> database W' = Loaded (Some db')
         \<and> collection db' ''order''
             = collection db ''order''
               @ [[(''product_id'', PStr pid), (''quantity'', PInt q), (''status'', PStr ''paid''),
                   (''_id'', PObjectId (new_ObjectId (oid_counter db)))]]
         \<and> (\<forall>c. c \<noteq> ''order'' \<longrightarrow> collection db' c = collection db c)"
proof -
  have v: "validate_CheckoutIn L d = Inr \<lparr>product_id = pid, quantity = q\<rparr>"
    using assms(2-5)
    by (intro validate_CheckoutIn_ok) (simp_all add: with_default_def validate_quantity_int)
  have oid: "ObjectId (product_id \<lparr>product_id = pid, quantity = q\<rparr>) = Inr oid"
    using assms(6) by simp
  note h = checkout_success [OF assms(1) oid assms(7-9), of L]
  show ?thesis
    unfolding post_api_checkout_def with_body_def
    by (simp add: v h reply_of_def set_db_def hexlify_new_ObjectId collection_def update_conv')
qed

theorem checkout_creates_order_witness:
  "\<exists>r W' db'.
     post_api_checkout example_lib
       (PDict [(''product_id'', PStr ''650102030405060708090a0b''), (''quantity'', PInt 3)])
       example_world = (OK r, W')
   \<and> status r = ''success''
   \<and> order_id r = ''000000000000000000000007''
   \<and> database W' = Loaded (Some db')
   \<and> collection db' ''order''
       = [[(''product_id'', PStr ''650102030405060708090a0b''), (''quantity'', PInt 3),
           (''status'', PStr ''paid''),
           (''_id'', PObjectId [0, 0, 0, 0, 0, 0, 0, 0, 0, 0, 0, 7])]]
   \<and> collection db' ''product'' = [example_product]"
proof -
  let ?d = "[(''product_id'', PStr ''650102030405060708090a0b''), (''quantity'', PInt 3)]"
  have a: "database example_world = Loaded (Some example_db)"
    by (simp add: example_world_def)
  have b: "map_of ?d ''product_id'' = Some (PStr ''650102030405060708090a0b'')" by simp
  have c: "map_of ?d ''quantity'' = Some (PInt 3)" by simp
  have e: "\<exists>p\<in>set (collection example_db ''product''). map_of p ''_id'' = Some (PObjectId example_oid)"
    by (simp add: example_products example_product_def)
  have f: "fault example_db (FindOne ''product'') = None"
    and g: "fault example_db (InsertOne ''order'') = None"
    by (simp_all add: example_db_def)
  have n: "new_ObjectId (oid_counter example_db) = [0, 0, 0, 0, 0, 0, 0, 0, 0, 0, 0, 7]"
    by (simp add: new_ObjectId_def example_db_def upt_rec)
  have h: "hexlify [0, 0, 0, 0, 0, 0, 0, 0, 0, 0, 0, 7 :: byte] = ''000000000000000000000007''"
    by (simp add: hex_char_def)
  from checkout_creates_order [OF a b c _ _ ObjectId_example e f g, of example_lib]
  obtain r W' db' where
    r: "post_api_checkout example_lib (PDict ?d) example_world = (OK r, W')"
       "status r = ''success''"
       "order_id r = hexlify (new_ObjectId (oid_counter example_db))"
       "database W' = Loaded (Some db')"
       "collection db' ''order''
          = collection example_db ''order''
            @ [[(''product_id'', PStr ''650102030405060708090a0b''), (''quantity'', PInt 3),
                (''status'', PStr ''paid''),
                (''_id'', PObjectId (new_ObjectId (oid_counter example_db)))]]"
       "\<forall>c. c \<noteq> ''order'' \<longrightarrow> collection db' c = collection example_db c"
    by auto
  have p: "collection db' ''product'' = [example_product]"
    using r(6) by (simp add: example_products)
  show ?thesis
    using r(1,2,4) r(3) [unfolded n h] r(5) [unfolded n example_orders] p by auto
qed

text \<open>
  Claim C10. \<^verbatim>\<open>quantity\<close> has the default 1, so a body without the key, carrying a string
  \<^verbatim>\<open>product_id\<close>, passes validation with quantity 1. When the checkout then succeeds
  (the store is connected and answers, the identifier is that of a product), the order
  that is created has quantity 1.
\<close>

theorem checkout_quantity_default:
  assumes "map_of d ''quantity'' = None" and "map_of d ''product_id'' = Some (PStr pid)"
  shows "validate_CheckoutIn L d = Inr \<lparr>product_id = pid, quantity = 1\<rparr>
       \<and> (database W = Loaded (Some db) \<and> ObjectId pid = Inr oid
            \<and> (\<exists>p\<in>set (collection db ''product''). map_of p ''_id'' = Some (PObjectId oid))
            \<and> fault db (FindOne ''product'') = None \<and> fault db (InsertOne ''order'') = None
          \<longrightarrow> (\<exists>r W' db'.
                 post_api_checkout L (PDict d) W = (OK r, W')
               \<and> status r = ''success''
               \<and> database W' = Loaded (Some db')
               \<and> collection db' ''order''
                   = collection db ''order''
                     @ [[(''product_id'', PStr pid), (''quantity'', PInt 1),
                         (''status'', PStr ''paid''),
                         (''_id'', PObjectId (new_ObjectId (oid_counter db)))]]))"
proof -
  have v: "validate_CheckoutIn L d = Inr \<lparr>product_id = pid, quantity = 1\<rparr>"
    using assms by (intro validate_CheckoutIn_ok) (simp_all add: with_default_def)
  have "\<exists>r W' db'.
          post_api_checkout L (PDict d) W = (OK r, W')
        \<and> status r = ''success''
        \<and> database W' = Loaded (Some db')
        \<and> collection db' ''order''
            = collection db ''order''
              @ [[(''product_id'', PStr pid), (''quantity'', PInt 1), (''status'', PStr ''paid''),
                  (''_id'', PObjectId (new_ObjectId (oid_counter db)))]]"
    if a: "database W = Loaded (Some db)" and b: "ObjectId pid = Inr oid"
      and c: "\<exists>p\<in>set (collection db ''product''). map_of p ''_id'' = Some (PObjectId oid)"
      and f: "fault db (FindOne ''product'') = None"
      and g: "fault db (InsertOne ''order'') = None"
  proof -
    have oid: "ObjectId (product_id \<lparr>product_id = pid, quantity = 1\<rparr>) = Inr oid"
      using b by simp
    note h = checkout_success [OF a oid c f g, of L]
    show ?thesis
      unfolding post_api_checkout_def with_body_def
      by (simp add: v h reply_of_def set_db_def collection_def update_conv')
  qed
  with v show ?thesis by blast
qed

theorem checkout_quantity_default_witness:
  "validate_CheckoutIn example_lib [(''product_id'', PStr ''650102030405060708090a0b'')]
     = Inr \<lparr>product_id = ''650102030405060708090a0b'', quantity = 1\<rparr>
   \<and> (\<exists>r W' db'.
         post_api_checkout example_lib
           (PDict [(''product_id'', PStr ''650102030405060708090a0b'')]) example_world
           = (OK r, W')
       \<and> status r = ''success''
       \<and> database W' = Loaded (Some db')
       \<and> collection db' ''order''
           = [[(''product_id'', PStr ''650102030405060708090a0b''), (''quantity'', PInt 1),
               (''status'', PStr ''paid''),
               (''_id'', PObjectId (new_ObjectId 7))]])"
proof -
  let ?d = "[(''product_id'', PStr ''650102030405060708090a0b'')]"
  have a: "map_of ?d ''quantity'' = None" by simp
  have b: "map_of ?d ''product_id'' = Some (PStr ''650102030405060708090a0b'')" by simp
  have w: "database example_world = Loaded (Some example_db)"
    by (simp add: example_world_def)
  have e: "\<exists>p\<in>set (collection example_db ''product''). map_of p ''_id'' = Some (PObjectId example_oid)"
    by (simp add: example_products example_product_def)
  have f: "fault example_db (FindOne ''product'') = None"
    and g: "fault example_db (InsertOne ''order'') = None"
    and n: "oid_counter example_db = 7"
    by (simp_all add: example_db_def)
  from checkout_quantity_default [OF a b, of example_lib example_world example_db example_oid]
  show ?thesis
    using w e f g ObjectId_example by (simp add: example_orders n)
qed

text \<open>
  Claim C9, as amended. The spec has an empty \<^verbatim>\<open>product_id\<close> refused by validation. The
  schema declares \<^verbatim>\<open>product_id: str\<close> with no minimum length, so the empty string never
  gives a validation error on \<^verbatim>\<open>product_id\<close>, and with a quantity that is absent or an
  integer from 1 to 10 the body is accepted. It is the handler that refuses it: with
  the database handle available the answer is 400 \<^verbatim>\<open>Invalid product_id\<close>, the store is
  not touched and no order is created.
\<close>

theorem checkout_empty_product_id:
  assumes "map_of d ''product_id'' = Some (PStr [])"
  shows "(\<forall>errs k. validate_CheckoutIn L d = Inl errs \<longrightarrow> (''product_id'', k) \<notin> set errs)
       \<and> (map_of d ''quantity'' = None \<or> (\<exists>q. map_of d ''quantity'' = Some (PInt q) \<and> 1 \<le> q \<and> q \<le> 10)
          \<longrightarrow> (\<exists>n. validate_CheckoutIn L d = Inr \<lparr>product_id = [], quantity = n\<rparr>)
            \<and> (\<forall>db. database W = Loaded (Some db)
                  \<longrightarrow> post_api_checkout L (PDict d) W = (HTTPError 400 ''Invalid product_id'', W)))"
proof -
  have p: "required d ''product_id'' (\<lambda>v. one_error (validate_str v)) = Inr []"
    using assms by (simp add: required_def validate_str_def one_error_def)
  have 1: "\<forall>errs k. validate_CheckoutIn L d = Inl errs \<longrightarrow> (''product_id'', k) \<notin> set errs"
    by (cases "with_default d ''quantity'' 1 (validate_quantity L)")
       (auto simp: validate_CheckoutIn_def p field_errors_def)
  have 2: "(\<exists>n. validate_CheckoutIn L d = Inr \<lparr>product_id = [], quantity = n\<rparr>)
         \<and> (\<forall>db. database W = Loaded (Some db)
               \<longrightarrow> post_api_checkout L (PDict d) W = (HTTPError 400 ''Invalid product_id'', W))"
    if q: "map_of d ''quantity'' = None
           \<or> (\<exists>q. map_of d ''quantity'' = Some (PInt q) \<and> 1 \<le> q \<and> q \<le> 10)"
  proof -
    from q obtain n where n: "with_default d ''quantity'' 1 (validate_quantity L) = Inr n"
      by (auto simp: with_default_def validate_quantity_int)
    have v: "validate_CheckoutIn L d = Inr \<lparr>product_id = [], quantity = n\<rparr>"
      using assms n by (rule validate_CheckoutIn_ok)
    have "post_api_checkout L (PDict d) W = (HTTPError 400 ''Invalid product_id'', W)"
      if w: "database W = Loaded (Some db)" for db
      unfolding post_api_checkout_def with_body_def
      using w
      by (simp add: v checkout_def checkout_try_def import_db_def ObjectId_empty reply_of_def)
    with v show ?thesis by blast
  qed
  from 1 2 show ?thesis by blast
qed

theorem checkout_empty_product_id_witness:
  "validate_CheckoutIn example_lib [(''product_id'', PStr [])]
     = Inr \<lparr>product_id = [], quantity = 1\<rparr>
   \<and> post_api_checkout example_lib (PDict [(''product_id'', PStr [])]) example_world
     = (HTTPError 400 ''Invalid product_id'', example_world)"
proof -
  let ?d = "[(''product_id'', PStr [])]"
  have a: "map_of ?d ''product_id'' = Some (PStr [])" by simp
  have q: "map_of ?d ''quantity'' = None" by simp
  have w: "database example_world = Loaded (Some example_db)"
    by (simp add: example_world_def)
  have v: "validate_CheckoutIn example_lib ?d = Inr \<lparr>product_id = [], quantity = 1\<rparr>"
    by (simp add: validate_CheckoutIn_def required_def with_default_def validate_str_def
        one_error_def)
  from checkout_empty_product_id [OF a, of example_lib example_world] q w
  have "post_api_checkout example_lib (PDict ?d) example_world
          = (HTTPError 400 ''Invalid product_id'', example_world)"
    by blast
  with v show ?thesis by simp
qed

text \<open>
  Claim C9 as the spec states it fails on the body \<^verbatim>\<open>{"product_id": ""}\<close>: validation
  accepts it.
\<close>

theorem checkout_empty_product_id_accepted:
  "validate_CheckoutIn example_lib [(''product_id'', PStr [])]
     = Inr \<lparr>product_id = [], quantity = 1\<rparr>"
  by (simp add: validate_CheckoutIn_def required_def with_default_def validate_str_def
      one_error_def)

section \<open>Products: validation of the creation input\<close>

lemma float_lt_not_ge: "float_lt f 0 \<Longrightarrow> \<not> float_ge f 0"
  by (cases f) auto

lemma validate_price_negative:
  assumes "validate_float L v = Inr f" and "float_lt f 0"
  shows "validate_price L v = Inl [greater_than_equal]"
  using assms by (simp add: validate_price_def float_lt_not_ge)

lemma map_of_filter_keys:
  "map_of (filter (\<lambda>kv. fst kv \<in> S) d) k = (if k \<in> S then map_of d k else None)"
  by (induction d) auto

text \<open>
  Claim C6. A creation input whose \<^verbatim>\<open>price\<close> reads as a number below 0 (a negative
  integer, a negative float or minus infinity, or a string the library reads as one)
  fails validation with the error \<^verbatim>\<open>greater_than_equal\<close> on \<^verbatim>\<open>price\<close>. The request is
  answered with status 422 and the world is unchanged, whatever \<^verbatim>\<open>create_document\<close>
  would do: it is not called and nothing is persisted.
\<close>

theorem create_product_negative_price:
  assumes "map_of d ''price'' = Some v" and "validate_float L v = Inr f" and "float_lt f 0"
  shows "\<exists>errs. validate_ProductIn L d = Inl errs
           \<and> (''price'', greater_than_equal) \<in> set errs
           \<and> post_api_products L create_document (PDict d) W = (Unprocessable errs, W)"
proof -
  have p: "required d ''price'' (validate_price L) = Inl [greater_than_equal]"
    using assms by (simp add: required_def validate_price_negative)
  have "\<exists>errs. validate_ProductIn L d = Inl errs \<and> (''price'', greater_than_equal) \<in> set errs"
    unfolding validate_ProductIn_def Let_def p
    by (simp add: field_errors_def split: sum.splits)
  then show ?thesis
    unfolding post_api_products_def with_body_def by auto
qed

theorem create_product_negative_price_witness:
  "\<exists>errs. validate_ProductIn example_lib [(''title'', PStr ''Lamp''), (''price'', PFloat (Finite (- 5)))]
             = Inl errs
         \<and> (''price'', greater_than_equal) \<in> set errs
         \<and> post_api_products example_lib (\<lambda>c p W. (Inr (PStr ''new''), W))
              (PDict [(''title'', PStr ''Lamp''), (''price'', PFloat (Finite (- 5)))]) example_world
             = (Unprocessable errs, example_world)"
proof -
  let ?d = "[(''title'', PStr ''Lamp''), (''price'', PFloat (Finite (- 5)))]"
  have a: "map_of ?d ''price'' = Some (PFloat (Finite (- 5)))" by simp
  have b: "validate_float example_lib (PFloat (Finite (- 5))) = Inr (Finite (- 5))"
    by (simp add: validate_float_def)
  have c: "float_lt (Finite (- 5)) 0" by simp
  show ?thesis
    by (rule create_product_negative_price [OF a b c])
qed

text \<open>
  Claim C3, as amended. The spec has a creation input with a field outside the schema
  refused. \<^verbatim>\<open>ProductIn\<close> is a pydantic model with the default configuration, which
  ignores such fields: validation reads only the seven declared keys, so an input and
  the same input without its undeclared fields are validated alike, and so are the
  requests that carry them.
\<close>

theorem create_product_extra_fields_ignored:
  "validate_ProductIn L d = validate_ProductIn L (filter (\<lambda>kv. fst kv \<in> set ProductIn_fields) d)
   \<and> post_api_products L create_document (PDict d) W
       = post_api_products L create_document
           (PDict (filter (\<lambda>kv. fst kv \<in> set ProductIn_fields) d)) W"
proof -
  have "validate_ProductIn L d
          = validate_ProductIn L (filter (\<lambda>kv. fst kv \<in> set ProductIn_fields) d)"
    unfolding validate_ProductIn_def required_def with_default_def map_of_filter_keys
    by (simp add: ProductIn_fields_def)
  then show ?thesis
    unfolding post_api_products_def with_body_def by simp
qed

theorem create_product_extra_fields_ignored_witness:
  "validate_ProductIn example_lib
     [(''title'', PStr ''Lamp''), (''colour'', PStr ''red''), (''price'', PInt 5)]
   = validate_ProductIn example_lib [(''title'', PStr ''Lamp''), (''price'', PInt 5)]"
  using create_product_extra_fields_ignored
          [of example_lib "[(''title'', PStr ''Lamp''), (''colour'', PStr ''red''), (''price'', PInt 5)]"]
  by (simp add: ProductIn_fields_def)

text \<open>
  Claim C3 as the spec states it fails on an input with the undeclared field
  \<^verbatim>\<open>colour\<close>: validation accepts it and the field is dropped.
\<close>

theorem create_product_extra_field_accepted:
  "''colour'' \<notin> set ProductIn_fields \<and>
   validate_ProductIn example_lib
     [(''title'', PStr ''Lamp''), (''price'', PInt 5), (''colour'', PStr ''red'')]
   = Inr \<lparr>title = ''Lamp'', description = None, price = Finite 5, category = None,
          in_stock = True, image_urls = [], video_url = None\<rparr>"
  by (simp add: ProductIn_fields_def validate_ProductIn_def required_def with_default_def
      validate_str_def one_error_def validate_price_def validate_float_def)

section \<open>Products: the listing\<close>

lemma validate_ProductIn_cong:
  assumes "\<forall>k\<in>set ProductIn_fields. map_of d k = map_of d' k"
  shows "validate_ProductIn L d = validate_ProductIn L d'"
  using assms
  unfolding validate_ProductIn_def required_def with_default_def
  by (simp add: ProductIn_fields_def)

lemma list_products_loop_result:
  "list_products_loop L docs acc = Inr out
     \<Longrightarrow> map Inr out = map Inr acc @ map (product_of_doc L) docs"
proof (induction docs arbitrary: acc)
  case Nil
  then show ?case by simp
next
  case (Cons d docs)
  then obtain p where p: "product_of_doc L d = Inr p"
    and r: "list_products_loop L docs (acc @ [p]) = Inr out"
    by (auto split: sum.splits)
  from Cons.IH [OF r] p show ?case by simp
qed

lemma list_products_loop_total:
  "\<forall>d\<in>set docs. \<exists>p. product_of_doc L d = Inr p
     \<Longrightarrow> \<exists>out. list_products_loop L docs acc = Inr out"
  by (induction docs arbitrary: acc) auto

lemma list_products_Inr:
  assumes "list_products L W = (Inr out, W')"
  shows "\<exists>db. database W = Loaded (Some db)
           \<and> list_products_loop L (take 100 (collection db ''product'')) [] = Inr out"
  using assms
  by (auto simp: list_products_def import_db_def get_documents_def Let_def matches_def
      split: database_module.splits option.splits sum.splits prod.splits)

lemma list_products_connected:
  assumes "database W = Loaded (Some db)" and "fault db (Find ''product'') = None"
  shows "fst (list_products L W)
           = list_products_loop L (take 100 (collection db ''product'')) []"
  using assms
  by (simp add: list_products_def import_db_def get_documents_def Let_def matches_def)

lemma product_of_doc_fields:
  assumes "product_of_doc L d = Inr p"
  shows "id_str p = (if truthy (dict_get d ''_id'') then py_str L (dict_get d ''_id'') else [])"
    and "validate_ProductIn L (dict_pop ''updated_at'' (dict_pop ''created_at'' (dict_pop ''_id'' d)))
           = Inr (ProductIn.truncate p)"
proof -
  let ?i = "if truthy (dict_get d ''_id'') then py_str L (dict_get d ''_id'') else []"
  let ?d3 = "dict_pop ''updated_at'' (dict_pop ''created_at'' (dict_pop ''_id'' d))"
  have c: "validate_ProductIn L ((''id'', PStr ?i) # ?d3) = validate_ProductIn L ?d3"
    by (rule validate_ProductIn_cong) (simp add: ProductIn_fields_def)
  from assms have v: "validate_ProductOut L ((''id'', PStr ?i) # ?d3) = Inr p"
    by (simp add: product_of_doc_def new_ProductOut_def Let_def split: if_splits sum.splits)
  then obtain b where b: "validate_ProductIn L ?d3 = Inr b"
    and p: "p = ProductIn.extend b (ProductOut.fields ?i)"
    by (auto simp: validate_ProductOut_def Let_def c required_def validate_str_def one_error_def
        split: sum.splits)
  show "id_str p = ?i"
    by (simp add: p ProductIn.defs ProductOut.defs)
  show "validate_ProductIn L ?d3 = Inr (ProductIn.truncate p)"
    by (simp add: b p ProductIn.defs ProductOut.defs)
qed

lemma example_product_record:
  "product_of_doc example_lib example_product
     = Inr \<lparr>title = ''Lamp'', description = None, price = Finite 25, category = None,
            in_stock = True, image_urls = [], video_url = None,
            id_str = ''650102030405060708090a0b''\<rparr>"
  by (simp add: product_of_doc_def new_ProductOut_def dict_get_def dict_pop_def
      example_product_def example_oid_def py_str_def hex_char_def
      validate_ProductOut_def validate_ProductIn_def required_def with_default_def
      validate_str_def one_error_def validate_price_def validate_float_def validate_bool_def
      ProductIn.defs ProductOut.defs)

text \<open>
  Claim C5, as amended. The spec has \<^verbatim>\<open>list_products\<close> return its list in every state of
  the store. The handler has no \<^verbatim>\<open>try\<close>: it raises when the \<^verbatim>\<open>database\<close> module is
  absent or the store cannot be read, and when a fetched document is refused by
  \<^verbatim>\<open>ProductOut\<close>. What holds is this. Whenever \<^verbatim>\<open>list_products\<close> returns, the store is
  connected and the result has at most 100 records, the records of the first 100
  product documents in the store's order, so none when there is no product. It does
  return when the store is connected, answers the query and each of those documents
  makes a record. The record of a document has as \<^verbatim>\<open>id\<close> the text of the document's
  \<^verbatim>\<open>_id\<close> (the hexadecimal text of an ObjectId, the empty string when \<^verbatim>\<open>_id\<close> is missing
  or false), and as its other fields the validated schema fields of the document
  without \<^verbatim>\<open>_id\<close>, \<^verbatim>\<open>created_at\<close> and \<^verbatim>\<open>updated_at\<close>.
\<close>

theorem list_products_returns:
  "(\<forall>out W'. list_products L W = (Inr out, W') \<longrightarrow>
      (\<exists>db. database W = Loaded (Some db)
         \<and> length out \<le> 100
         \<and> map Inr out = map (product_of_doc L) (take 100 (collection db ''product''))
         \<and> (collection db ''product'' = [] \<longrightarrow> out = [])))
   \<and> (\<forall>db. database W = Loaded (Some db) \<and> fault db (Find ''product'') = None
          \<and> (\<forall>d\<in>set (take 100 (collection db ''product'')). \<exists>p. product_of_doc L d = Inr p)
        \<longrightarrow> (\<exists>out. fst (list_products L W) = Inr out))
   \<and> (\<forall>d p. product_of_doc L d = Inr p \<longrightarrow>
          id_str p = (if truthy (dict_get d ''_id'') then py_str L (dict_get d ''_id'') else [])
        \<and> (\<forall>oid. map_of d ''_id'' = Some (PObjectId oid) \<longrightarrow> id_str p = hexlify oid)
        \<and> validate_ProductIn L
              (dict_pop ''updated_at'' (dict_pop ''created_at'' (dict_pop ''_id'' d)))
            = Inr (ProductIn.truncate p))"
proof (intro conjI allI impI)
  fix out W'
  assume r: "list_products L W = (Inr out, W')"
  from list_products_Inr [OF r] obtain db where db: "database W = Loaded (Some db)"
    and l: "list_products_loop L (take 100 (collection db ''product'')) [] = Inr out"
    by blast
  from list_products_loop_result [OF l]
  have m: "map Inr out = map (product_of_doc L) (take 100 (collection db ''product''))"
    by simp
  then have "length out = length (take 100 (collection db ''product''))"
    by (metis length_map)
  then have n: "length out \<le> 100" and e: "collection db ''product'' = [] \<longrightarrow> out = []"
    by auto
  from db n m e
  show "\<exists>db. database W = Loaded (Some db)
          \<and> length out \<le> 100
          \<and> map Inr out = map (product_of_doc L) (take 100 (collection db ''product''))
          \<and> (collection db ''product'' = [] \<longrightarrow> out = [])"
    by blast
next
  fix db
  assume a: "database W = Loaded (Some db) \<and> fault db (Find ''product'') = None
          \<and> (\<forall>d\<in>set (take 100 (collection db ''product'')). \<exists>p. product_of_doc L d = Inr p)"
  then have "fst (list_products L W)
               = list_products_loop L (take 100 (collection db ''product'')) []"
    by (simp add: list_products_connected)
  with a list_products_loop_total [of "take 100 (collection db ''product'')" L "[]"]
  show "\<exists>out. fst (list_products L W) = Inr out"
    by auto
next
  fix d p
  assume p: "product_of_doc L d = Inr p"
  show "id_str p = (if truthy (dict_get d ''_id'') then py_str L (dict_get d ''_id'') else [])"
    by (rule product_of_doc_fields(1) [OF p])
  show "validate_ProductIn L
          (dict_pop ''updated_at'' (dict_pop ''created_at'' (dict_pop ''_id'' d)))
        = Inr (ProductIn.truncate p)"
    by (rule product_of_doc_fields(2) [OF p])
  fix oid
  assume "map_of d ''_id'' = Some (PObjectId oid)"
  then show "id_str p = hexlify oid"
    by (simp add: product_of_doc_fields(1) [OF p] dict_get_def py_str_def)
qed

theorem list_products_returns_witness:
  "fst (list_products example_lib example_world)
     = Inr [\<lparr>title = ''Lamp'', description = None, price = Finite 25, category = None,
             in_stock = True, image_urls = [], video_url = None,
             id_str = ''650102030405060708090a0b''\<rparr>]"
proof -
  have w: "database example_world = Loaded (Some example_db)"
    by (simp add: example_world_def)
  have f: "fault example_db (Find ''product'') = None"
    by (simp add: example_db_def)
  have t: "\<forall>d\<in>set (take 100 (collection example_db ''product'')).
             \<exists>p. product_of_doc example_lib d = Inr p"
    by (simp add: example_products example_product_record)
  note main = list_products_returns [of example_lib example_world]
  from main w f t obtain out where o: "fst (list_products example_lib example_world) = Inr out"
    by blast
  then obtain W' where r: "list_products example_lib example_world = (Inr out, W')"
    by (cases "list_products example_lib example_world") auto
  with main obtain db where db: "database example_world = Loaded (Some db)"
    and m: "map Inr out = map (product_of_doc example_lib) (take 100 (collection db ''product''))"
    by blast
  from db w have "db = example_db" by simp
  with m have "map Inr out = [product_of_doc example_lib example_product]"
    by (simp add: example_products)
  then have "out = [\<lparr>title = ''Lamp'', description = None, price = Finite 25, category = None,
                     in_stock = True, image_urls = [], video_url = None,
                     id_str = ''650102030405060708090a0b''\<rparr>]"
    unfolding example_product_record by auto
  with o show ?thesis by simp
qed

text \<open>
  Claim C5 as the spec states it fails in two states of the store: with the
  \<^verbatim>\<open>database\<close> module absent the import in the handler raises, and with a stored product
  that has no title \<^verbatim>\<open>ProductOut\<close> raises. In both the handler returns no list.
\<close>

theorem list_products_raises:
  "fst (list_products example_lib absent_world) = Inl (ImportError ''No module named database'')
   \<and> fst (list_products example_lib untitled_world) = Inl (ValidationError [(''title'', missing)])"
  by (simp add: list_products_def import_db_def absent_world_def untitled_world_def
      get_documents_def example_db_def collection_def matches_def set_db_def
      product_of_doc_def new_ProductOut_def dict_get_def dict_pop_def py_str_def
      validate_ProductOut_def validate_ProductIn_def required_def with_default_def
      validate_str_def one_error_def validate_price_def validate_float_def field_errors_def)

section \<open>Diagnostics: the handler always answers\<close>

text \<open>
  Claim C8. In every state of the world (the \<^verbatim>\<open>database\<close> module missing, raising while
  it loads, loaded with \<^verbatim>\<open>db\<close> equal to \<^verbatim>\<open>None\<close>, connected, connected with
  \<^verbatim>\<open>list_collection_names\<close> raising) \<^verbatim>\<open>test_database\<close> returns a response and raises
  nothing. The response has exactly the six keys, in the order of the source. The
  \<^verbatim>\<open>collections\<close> are the first 10 names of the store when it lists them and none
  otherwise; the text of a caught exception enters \<^verbatim>\<open>database\<close> cut to 50 characters;
  \<^verbatim>\<open>database_url\<close> and \<^verbatim>\<open>database_name\<close> say only whether the environment variable is
  set and not empty.
\<close>

theorem test_database_never_raises:
  "\<exists>r W'. test_database L W = (Inr r, W')
     \<and> map fst r = [''backend'', ''database'', ''database_url'', ''database_name'',
                    ''connection_status'', ''collections'']
     \<and> map_of r ''backend'' = Some (PStr (check_mark @ '' Running''))
     \<and> map_of r ''database''
         = Some (PStr
             (case database W of
                Missing m \<Rightarrow>
                  cross_mark @ '' Database module not found (run enable-database first)''
              | Broken m \<Rightarrow> cross_mark @ '' Error: '' @ take 50 m
              | Loaded None \<Rightarrow> warning_sign @ ''  Available but not initialized''
              | Loaded (Some db) \<Rightarrow>
                  (case fault db ListCollectionNames of
                     None \<Rightarrow> check_mark @ '' Connected & Working''
                   | Some m \<Rightarrow> warning_sign @ ''  Connected but Error: '' @ take 50 m)))
     \<and> map_of r ''database_url''
         = Some (PStr (if getenv_truthy W ''DATABASE_URL'' then check_mark @ '' Set''
                       else cross_mark @ '' Not Set''))
     \<and> map_of r ''database_name''
         = Some (PStr (if getenv_truthy W ''DATABASE_NAME'' then check_mark @ '' Set''
                       else cross_mark @ '' Not Set''))
     \<and> map_of r ''connection_status''
         = Some (PStr (case database W of
                         Loaded (Some db) \<Rightarrow> ''Connected''
                       | _ \<Rightarrow> ''Not Connected''))
     \<and> map_of r ''collections''
         = Some (PList (map PStr
             (case database W of
                Loaded (Some db) \<Rightarrow>
                  (case fault db ListCollectionNames of
                     None \<Rightarrow> take 10 (map fst (collections db))
                   | Some m \<Rightarrow> [])
              | _ \<Rightarrow> [])))"
proof (cases "database W")
  case (Missing m)
  then show ?thesis
    by (simp add: test_database_def test_database_try_def import_db_def setitem_def
        is_ImportError_def)
next
  case (Broken m)
  then show ?thesis
    by (simp add: test_database_def test_database_try_def import_db_def setitem_def
        is_ImportError_def str_exn_def)
next
  case (Loaded h)
  show ?thesis
  proof (cases h)
    case None
    with Loaded show ?thesis
      by (simp add: test_database_def test_database_try_def import_db_def setitem_def)
  next
    case (Some db)
    show ?thesis
    proof (cases "fault db ListCollectionNames")
      case None
      with Loaded Some show ?thesis
        by (simp add: test_database_def test_database_try_def import_db_def setitem_def
            list_collection_names_def Let_def)
    next
      case (Some m)
      with Loaded \<open>h = Some db\<close> show ?thesis
        by (simp add: test_database_def test_database_try_def import_db_def setitem_def
            list_collection_names_def Let_def str_exn_def)
    qed
  qed
qed

theorem test_database_never_raises_witness:
  "\<exists>r W'. test_database example_lib example_world = (Inr r, W')
     \<and> map fst r = [''backend'', ''database'', ''database_url'', ''database_name'',
                    ''connection_status'', ''collections'']
     \<and> map_of r ''database'' = Some (PStr (check_mark @ '' Connected & Working''))
     \<and> map_of r ''database_url'' = Some (PStr (check_mark @ '' Set''))
     \<and> map_of r ''database_name'' = Some (PStr (cross_mark @ '' Not Set''))
     \<and> map_of r ''collections'' = Some (PList [PStr ''product''])"
proof -
  have w: "database example_world = Loaded (Some example_db)"
    and f: "fault example_db ListCollectionNames = None"
    and c: "collections example_db = [(''product'', [example_product])]"
    and u: "getenv_truthy example_world ''DATABASE_URL''"
    and n: "\<not> getenv_truthy example_world ''DATABASE_NAME''"
    by (simp_all add: example_world_def example_db_def getenv_truthy_def)
  from test_database_never_raises [of example_lib example_world]
  obtain r W' where r: "test_database example_lib example_world = (Inr r, W')"
    "map fst r = [''backend'', ''database'', ''database_url'', ''database_name'',
                      ''connection_status'', ''collections'']"
    "map_of r ''database'' = Some (PStr (check_mark @ '' Connected & Working''))"
    "map_of r ''database_url'' = Some (PStr (check_mark @ '' Set''))"
    "map_of r ''database_name'' = Some (PStr (cross_mark @ '' Not Set''))"
    "map_of r ''collections'' = Some (PList [PStr ''product''])"
    using u n by (auto simp: w f c)
  show ?thesis
    by (rule exI [of _ r], rule exI [of _ W']) (intro conjI r)
qed

end
